theory Spec2Isabelle
  imports Complex_Main
begin

section \<open>Python values, exceptions and arrays\<close>

text \<open>
  The module \<^verbatim>\<open>GeoUtils/raster_tools.py\<close> is a facade over rasterio, shapely and numpy.
  Its own code is control flow, attribute traffic and calls into those libraries. The
  embedding keeps the Python values the code passes around as a small value type, every
  exception as a value of \<open>error\<close>, and the libraries as a record of functions
  (\<open>rio\<close> below) whose results the code only forwards.

  A finite Python float is a rational number; \<open>int(x)\<close> truncates it towards zero,
  raises \<^verbatim>\<open>ValueError\<close> on NaN and \<^verbatim>\<open>OverflowError\<close> on an infinity.
\<close>

datatype pyfloat = Fin rat | NaN | PosInf | NegInf

datatype pyval =
    PNone
  | PBool bool
  | PInt int
  | PFloat pyfloat
  | PStr string
  | PSeq "pyval list"
  | PObj nat

datatype error =
    AssertionError string
  | NotImplementedError
  | ValueError string
  | AttributeError string
  | TypeError string
  | IndexError string
  | OverflowError string
  | LibraryError string

datatype outcome = Ok | Raised error

definition py_int :: "pyfloat \<Rightarrow> error + int" where
  "py_int x =
     (case x of
        Fin q \<Rightarrow> Inr (if 0 \<le> q then \<lfloor>q\<rfloor> else \<lceil>q\<rceil>)
      | NaN \<Rightarrow> Inl (ValueError ''cannot convert float NaN to integer'')
      | PosInf \<Rightarrow> Inl (OverflowError ''cannot convert float infinity to integer'')
      | NegInf \<Rightarrow> Inl (OverflowError ''cannot convert float infinity to integer''))"

text \<open>
  Iterating a value for tuple unpacking: a list or tuple gives its items, a string its
  characters; \<open>PObj\<close> stands for an opaque library object that is not iterable.
\<close>

definition py_iter :: "pyval \<Rightarrow> error + pyval list" where
  "py_iter v =
     (case v of
        PSeq xs \<Rightarrow> Inr xs
      | PStr s \<Rightarrow> Inr (map (\<lambda>c. PStr [c]) s)
      | _ \<Rightarrow> Inl (TypeError ''cannot unpack non-iterable object''))"

text \<open>The decimal digit of a number below ten, as the error messages print it.\<close>

definition digit :: "nat \<Rightarrow> string" where
  "digit n = [char_of (48 + n)]"

text \<open>\<^verbatim>\<open>xmin, ymin, xmax, ymax = v\<close>\<close>

definition unpack4 :: "pyval \<Rightarrow> error + (pyval \<times> pyval \<times> pyval \<times> pyval)" where
  "unpack4 v =
     (case py_iter v of
        Inl e \<Rightarrow> Inl e
      | Inr xs \<Rightarrow>
          (if length xs < 4 then
             Inl (ValueError (''not enough values to unpack (expected 4, got '' @ digit (length xs) @ '')''))
           else if 4 < length xs then Inl (ValueError ''too many values to unpack (expected 4)'')
           else Inr (xs ! 0, xs ! 1, xs ! 2, xs ! 3)))"

text \<open>
  A numpy array: element type, shape and the elements in row-major order.
  \<^verbatim>\<open>a.ndim\<close> is the length of the shape.
\<close>

record ndarray =
  dtype :: string
  shape :: "nat list"
  vals :: "pyfloat list"

definition ndim :: "ndarray \<Rightarrow> nat" where
  "ndim a = length (shape a)"

text \<open>\<^verbatim>\<open>a.shape[i]\<close> for a non-negative \<open>i\<close>: out of range raises IndexError.\<close>

definition shape_at :: "ndarray \<Rightarrow> nat \<Rightarrow> error + nat" where
  "shape_at a i =
     (if i < length (shape a) then Inr (shape a ! i)
      else Inl (IndexError ''tuple index out of range''))"

fun is_dim :: "pyval \<Rightarrow> bool" where
  "is_dim (PInt n) = True"
| "is_dim _ = False"

fun dim_int :: "pyval \<Rightarrow> int" where
  "dim_int (PInt n) = n"
| "dim_int _ = 0"

text \<open>
  \<^verbatim>\<open>np.zeros(dims, dtype=dt)\<close>: every dimension must be an integer and none negative;
  the result has that shape and holds zeros only.
\<close>

definition np_zeros :: "pyval list \<Rightarrow> string \<Rightarrow> error + ndarray" where
  "np_zeros dims dt =
     (if list_all is_dim dims then
        (if list_all (\<lambda>d. 0 \<le> dim_int d) dims then
           Inr \<lparr>dtype = dt,
                shape = map (\<lambda>d. nat (dim_int d)) dims,
                vals = replicate (prod_list (map (\<lambda>d. nat (dim_int d)) dims)) (Fin 0)\<rparr>
         else Inl (ValueError ''negative dimensions are not allowed''))
      else Inl (TypeError ''object cannot be interpreted as an integer''))"

text \<open>
  \<^verbatim>\<open>a[b, :, :]\<close>: three indices need a 3-D array, and \<open>b\<close> must be below the leading
  dimension.
\<close>

definition band_slice :: "ndarray \<Rightarrow> nat \<Rightarrow> error + ndarray" where
  "band_slice a b =
     (case shape a of
        [n, r, c] \<Rightarrow>
          (if b < n then
             Inr \<lparr>dtype = dtype a, shape = [r, c], vals = take (r * c) (drop (b * r * c) (vals a))\<rparr>
           else Inl (IndexError ''index is out of bounds for axis 0''))
      | _ \<Rightarrow> Inl (IndexError ''too many indices for array''))"

section \<open>The libraries the module calls\<close>

text \<open>
  The window a pair of bounds covers under a transform (\<^verbatim>\<open>rasterio.windows.Window\<close>);
  the code reads its height and width only.
\<close>

record window =
  w_height :: pyfloat
  w_width :: pyfloat

text \<open>
  Every call that leaves the module is a field of \<open>rio\<close>; \<open>'ds\<close> is rasterio's dataset
  object and \<open>'mf\<close> its \<^verbatim>\<open>MemoryFile\<close>. Each may raise, so each returns a sum.
  \<^item> \<open>memfile_from_path f\<close>: \<^verbatim>\<open>MemoryFile(open(f, 'rb'))\<close>
  \<^item> \<open>memfile_open m\<close>: \<^verbatim>\<open>m.open()\<close>
  \<^item> \<open>memfile_write md img\<close>: \<^verbatim>\<open>m = MemoryFile()\<close>, then
    \<^verbatim>\<open>with m.open(**md) as ds: ds.write(img)\<close>; the result is \<open>m\<close>
  \<^item> \<open>ds_getattr d n\<close>: \<^verbatim>\<open>getattr(d, n)\<close>; \<open>ds_meta d\<close>: \<^verbatim>\<open>d.meta\<close>, a fresh dict
  \<^item> \<open>ds_read d\<close>: \<^verbatim>\<open>d.read()\<close>; \<open>ds_read_bands d b\<close>: \<^verbatim>\<open>d.read(b)\<close>
  \<^item> \<open>shapely_polygon\<close>: \<^verbatim>\<open>Polygon(vertices)\<close>
  \<^item> \<open>riomask_mask d shapes\<close>: \<^verbatim>\<open>riomask.mask(d, shapes, crop=True, all_touched=True)\<close>
  \<^item> \<open>riowindows_from_bounds xmin ymin xmax ymax t\<close> and
    \<open>riotransform_from_bounds xmin ymin xmax ymax width height\<close>
  \<^item> \<open>riowarp_reproject src dst src_transform dst_transform src_crs dst_crs\<close>
  \<^item> \<open>crs_to_epsg\<close>, the NaN-aware reductions of numpy, and string formatting:
    \<open>py_str\<close> is \<^verbatim>\<open>'{}'.format(v)\<close>, \<open>fmt_2f\<close> is \<^verbatim>\<open>'{:.2f}'.format(x)\<close>.
\<close>

record ('ds, 'mf) rio =
  os_abspath :: "string \<Rightarrow> string"
  memfile_from_path :: "string \<Rightarrow> error + 'mf"
  memfile_open :: "'mf \<Rightarrow> error + 'ds"
  memfile_write :: "(string \<rightharpoonup> pyval) \<Rightarrow> ndarray \<Rightarrow> error + 'mf"
  ds_getattr :: "'ds \<Rightarrow> string \<Rightarrow> error + pyval"
  ds_meta :: "'ds \<Rightarrow> error + (string \<rightharpoonup> pyval)"
  ds_read :: "'ds \<Rightarrow> error + ndarray"
  ds_read_bands :: "'ds \<Rightarrow> pyval \<Rightarrow> error + ndarray"
  shapely_polygon :: "(pyval \<times> pyval) list \<Rightarrow> error + pyval"
  riomask_mask :: "'ds \<Rightarrow> pyval list \<Rightarrow> error + (ndarray \<times> pyval)"
  riowindows_from_bounds :: "pyval \<Rightarrow> pyval \<Rightarrow> pyval \<Rightarrow> pyval \<Rightarrow> pyval \<Rightarrow> error + window"
  riotransform_from_bounds :: "pyval \<Rightarrow> pyval \<Rightarrow> pyval \<Rightarrow> pyval \<Rightarrow> int \<Rightarrow> int \<Rightarrow> error + pyval"
  riowarp_reproject ::
    "ndarray option \<Rightarrow> ndarray \<Rightarrow> pyval \<Rightarrow> pyval \<Rightarrow> pyval \<Rightarrow> pyval \<Rightarrow> error + (ndarray \<times> pyval)"
  crs_to_epsg :: "pyval \<Rightarrow> error + pyval"
  np_nanmax :: "ndarray \<Rightarrow> error + pyfloat"
  np_nanmin :: "ndarray \<Rightarrow> error + pyfloat"
  np_nanmedian :: "ndarray \<Rightarrow> error + pyfloat"
  np_nanmean :: "ndarray \<Rightarrow> error + pyfloat"
  np_nanstd :: "ndarray \<Rightarrow> error + pyfloat"
  py_str :: "pyval \<Rightarrow> string"
  fmt_2f :: "pyfloat \<Rightarrow> string"

section \<open>The Raster object\<close>

text \<open>
  The instance attributes \<^verbatim>\<open>__init__\<close> assigns are the fields; the attributes that
  \<^verbatim>\<open>_read_attrs\<close> copies from the dataset with \<^verbatim>\<open>setattr\<close> live in the table
  \<open>attrs\<close>, keyed by name (rasterio's dataset has no attribute named like one of the
  fields). \<open>data = None\<close> is Python's \<^verbatim>\<open>self.data = None\<close>.
\<close>

record ('ds, 'mf) raster =
  filename :: "string option"
  memfile :: 'mf
  ds :: 'ds
  saved_attrs :: "string list"
  attrs :: "string \<rightharpoonup> pyval"
  data :: "ndarray option"
  nbands :: "nat option"
  isLoaded :: bool

definition default_attrs :: "string list" where
  "default_attrs =
     [''bounds'', ''count'', ''crs'', ''dataset_mask'', ''driver'', ''dtypes'', ''height'',
      ''indexes'', ''name'', ''nodata'', ''res'', ''shape'', ''transform'', ''width'']"

text \<open>\<^verbatim>\<open>self.<name>\<close> for a mirrored attribute.\<close>

definition self_attr :: "('ds, 'mf) raster \<Rightarrow> string \<Rightarrow> error + pyval" where
  "self_attr h n = (case attrs h n of None \<Rightarrow> Inl (AttributeError n) | Some v \<Rightarrow> Inr v)"

subsection \<open>\<^verbatim>\<open>load\<close>\<close>

definition load :: "('ds, 'mf) rio \<Rightarrow> pyval option \<Rightarrow> ('ds, 'mf) raster \<Rightarrow> outcome \<times> ('ds, 'mf) raster" where
  "load lib bands h =
     (case (case bands of None \<Rightarrow> ds_read lib (ds h) | Some b \<Rightarrow> ds_read_bands lib (ds h) b) of
        Inl e \<Rightarrow> (Raised e, h)
      | Inr a \<Rightarrow>
          (Ok, h\<lparr>data := Some a,
                 nbands := Some (if ndim a = 3 then shape a ! 0 else 1)\<rparr>))"

subsection \<open>\<^verbatim>\<open>_read_attrs\<close>\<close>

text \<open>The argument \<^verbatim>\<open>attrs\<close>: None, a single name, or a list of names.\<close>

datatype attrs_arg = AttrsNone | AttrsStr string | AttrsList "string list"

text \<open>
  \<^verbatim>\<open>for attr in default_attrs: if attr not in attrs: attrs.append(attr)\<close>
\<close>

definition add_defaults :: "string list \<Rightarrow> string list" where
  "add_defaults as =
     fold (\<lambda>attr acc. if attr \<in> set acc then acc else acc @ [attr]) default_attrs as"

text \<open>
  \<^verbatim>\<open>for attr in attrs: setattr(self, attr, getattr(self.ds, attr))\<close>; a name the dataset
  lacks raises AttributeError with the attributes before it already set.
\<close>

fun mirror :: "('ds, 'mf) rio \<Rightarrow> string list \<Rightarrow> ('ds, 'mf) raster \<Rightarrow> outcome \<times> ('ds, 'mf) raster" where
  "mirror lib [] h = (Ok, h)"
| "mirror lib (a # as) h =
     (case ds_getattr lib (ds h) a of
        Inl e \<Rightarrow> (Raised e, h)
      | Inr v \<Rightarrow> mirror lib as (h\<lparr>attrs := (attrs h)(a \<mapsto> v)\<rparr>))"

definition read_attrs :: "('ds, 'mf) rio \<Rightarrow> attrs_arg \<Rightarrow> ('ds, 'mf) raster \<Rightarrow> outcome \<times> ('ds, 'mf) raster" where
  "read_attrs lib arg h =
     (case arg of
        AttrsNone \<Rightarrow> mirror lib default_attrs (h\<lparr>saved_attrs := default_attrs\<rparr>)
      | AttrsStr s \<Rightarrow> mirror lib (add_defaults [s]) (h\<lparr>saved_attrs := add_defaults [s]\<rparr>)
      | AttrsList l \<Rightarrow> mirror lib (add_defaults l) (h\<lparr>saved_attrs := add_defaults l\<rparr>))"

subsection \<open>\<^verbatim>\<open>__init__\<close>\<close>

text \<open>
  An exception in the constructor leaves no object, so the result is a sum. The fields
  that are assigned only at the end of \<^verbatim>\<open>__init__\<close> are not read before.
\<close>

definition init ::
  "('ds, 'mf) rio \<Rightarrow> string \<Rightarrow> attrs_arg \<Rightarrow> bool \<Rightarrow> pyval option \<Rightarrow> error + ('ds, 'mf) raster" where
  "init lib fname arg load_data bands =
     (case memfile_from_path lib fname of
        Inl e \<Rightarrow> Inl e
      | Inr mf \<Rightarrow>
     (case memfile_open lib mf of
        Inl e \<Rightarrow> Inl e
      | Inr d \<Rightarrow>
     (case read_attrs lib arg
             \<lparr>filename = Some (os_abspath lib fname), memfile = mf, ds = d, saved_attrs = [],
              attrs = Map.empty, data = None, nbands = None, isLoaded = False\<rparr> of
        (Raised e, _) \<Rightarrow> Inl e
      | (Ok, h1) \<Rightarrow>
          (if load_data then
             (case load lib bands h1 of
                (Raised e, _) \<Rightarrow> Inl e
              | (Ok, h2) \<Rightarrow> Inr (h2\<lparr>isLoaded := True\<rparr>))
           else Inr (h1\<lparr>data := None, nbands := None, isLoaded := False\<rparr>)))))"

subsection \<open>\<^verbatim>\<open>_update\<close>\<close>

text \<open>
  The new memory file is written before the object is touched; then \<^verbatim>\<open>self.memfile\<close>,
  \<^verbatim>\<open>self.ds\<close> and the mirrored attributes are replaced in this order, and the pixel
  buffer is read again when \<^verbatim>\<open>self.isLoaded\<close> holds.
\<close>

definition update ::
  "('ds, 'mf) rio \<Rightarrow> ndarray \<Rightarrow> (string \<rightharpoonup> pyval) \<Rightarrow> ('ds, 'mf) raster \<Rightarrow> outcome \<times> ('ds, 'mf) raster" where
  "update lib imgdata metadata h =
     (case memfile_write lib metadata imgdata of
        Inl e \<Rightarrow> (Raised e, h)
      | Inr mf \<Rightarrow>
     (case memfile_open lib mf of
        Inl e \<Rightarrow> (Raised e, h\<lparr>memfile := mf\<rparr>)
      | Inr d \<Rightarrow>
     (case read_attrs lib AttrsNone (h\<lparr>memfile := mf, ds := d\<rparr>) of
        (Raised e, h') \<Rightarrow> (Raised e, h')
      | (Ok, h') \<Rightarrow> (if isLoaded h' then load lib None h' else (Ok, h')))))"

subsection \<open>\<^verbatim>\<open>info\<close>\<close>

definition newline :: string where
  "newline = [CHR 0x0A]"

text \<open>\<^verbatim>\<open>v[:2]\<close> and \<^verbatim>\<open>v[2:]\<close>: only a sequence or a string can be sliced.\<close>

definition slice_to2 :: "pyval \<Rightarrow> error + pyval" where
  "slice_to2 v =
     (case v of
        PSeq xs \<Rightarrow> Inr (PSeq (take 2 xs))
      | PStr s \<Rightarrow> Inr (PStr (take 2 s))
      | _ \<Rightarrow> Inl (TypeError ''object is not subscriptable''))"

definition slice_from2 :: "pyval \<Rightarrow> error + pyval" where
  "slice_from2 v =
     (case v of
        PSeq xs \<Rightarrow> Inr (PSeq (drop 2 xs))
      | PStr s \<Rightarrow> Inr (PStr (drop 2 s))
      | _ \<Rightarrow> Inl (TypeError ''object is not subscriptable''))"

text \<open>\<^verbatim>\<open>'<label>{} \n'.format(v)\<close> and \<^verbatim>\<open>'<label>{}\n'.format(v)\<close>\<close>

definition format1sp :: "('ds, 'mf) rio \<Rightarrow> string \<Rightarrow> pyval \<Rightarrow> string" where
  "format1sp lib label v = label @ py_str lib v @ '' '' @ newline"

definition format1 :: "('ds, 'mf) rio \<Rightarrow> string \<Rightarrow> pyval \<Rightarrow> string" where
  "format1 lib label v = label @ py_str lib v @ newline"

text \<open>\<^verbatim>\<open>'<label>{}, {}\n'.format(a, b)\<close>\<close>

definition format2 :: "('ds, 'mf) rio \<Rightarrow> string \<Rightarrow> pyval \<Rightarrow> pyval \<Rightarrow> string" where
  "format2 lib label a b = label @ py_str lib a @ '', '' @ py_str lib b @ newline"

text \<open>
  \<^verbatim>\<open>'<label>{}, {}\n'.format(*v)\<close>: the value is unpacked; fewer than two items leave a
  replacement field without argument, further items are ignored.
\<close>

definition format2_star :: "('ds, 'mf) rio \<Rightarrow> string \<Rightarrow> pyval \<Rightarrow> error + string" where
  "format2_star lib label v =
     (case py_iter v of
        Inl e \<Rightarrow> Inl e
      | Inr xs \<Rightarrow>
          (if length xs < 2 then Inl (IndexError ''Replacement index out of range for positional args tuple'')
           else Inr (format2 lib label (xs ! 0) (xs ! 1))))"

text \<open>\<^verbatim>\<open>'<label>{:.2f}\n'.format(f(a))\<close> for one reduction \<open>f\<close>.\<close>

definition stat_line :: "('ds, 'mf) rio \<Rightarrow> string \<Rightarrow> error + pyfloat \<Rightarrow> error + string" where
  "stat_line lib label r =
     (case r of Inl e \<Rightarrow> Inl e | Inr x \<Rightarrow> Inr (label @ fmt_2f lib x @ newline))"

text \<open>
  The five statistics lines of one array, in the order of the source; \<open>sel\<close> is the
  array expression, evaluated anew for each line (\<^verbatim>\<open>self.data\<close> or
  \<^verbatim>\<open>self.data[b, :, :]\<close>).
\<close>

definition stat_lines :: "('ds, 'mf) rio \<Rightarrow> error + ndarray \<Rightarrow> error + string list" where
  "stat_lines lib sel =
     (case sel of
        Inl e \<Rightarrow> Inl e
      | Inr a \<Rightarrow>
     (case stat_line lib ''[MAXIMUM]:          '' (np_nanmax lib a) of
        Inl e \<Rightarrow> Inl e
      | Inr l1 \<Rightarrow>
     (case stat_line lib ''[MINIMUM]:          '' (np_nanmin lib a) of
        Inl e \<Rightarrow> Inl e
      | Inr l2 \<Rightarrow>
     (case stat_line lib ''[MEDIAN]:           '' (np_nanmedian lib a) of
        Inl e \<Rightarrow> Inl e
      | Inr l3 \<Rightarrow>
     (case stat_line lib ''[MEAN]:             '' (np_nanmean lib a) of
        Inl e \<Rightarrow> Inl e
      | Inr l4 \<Rightarrow>
     (case stat_line lib ''[STD DEV]:          '' (np_nanstd lib a) of
        Inl e \<Rightarrow> Inl e
      | Inr l5 \<Rightarrow> Inr [l1, l2, l3, l4, l5]))))))"

text \<open>\<^verbatim>\<open>for b in range(self.nbands): ...\<close> over the band numbers \<open>bs\<close>.\<close>

fun band_lines :: "('ds, 'mf) rio \<Rightarrow> ndarray \<Rightarrow> nat list \<Rightarrow> error + string list" where
  "band_lines lib a [] = Inr []"
| "band_lines lib a (b # bs) =
     (case stat_lines lib (band_slice a b) of
        Inl e \<Rightarrow> Inl e
      | Inr ls \<Rightarrow>
          (case band_lines lib a bs of
             Inl e \<Rightarrow> Inl e
           | Inr rest \<Rightarrow> Inr ((''Band '' @ py_str lib (PInt (int b + 1)) @ '':'') # ls @ rest)))"

text \<open>The block under \<^verbatim>\<open>if stats:\<close>, giving the strings it appends.\<close>

definition stats_lines :: "('ds, 'mf) rio \<Rightarrow> ('ds, 'mf) raster \<Rightarrow> error + string list" where
  "stats_lines lib h =
     (case data h of
        None \<Rightarrow> Inr []
      | Some a \<Rightarrow>
          (if nbands h = Some 1 then stat_lines lib (Inr a)
           else
             (case nbands h of
                None \<Rightarrow>
                  Inl (TypeError (CHR 0x27 # ''NoneType' object cannot be interpreted as an integer''))
              | Some n \<Rightarrow> band_lines lib a [0..<n])))"

text \<open>The nine lines every summary starts with.\<close>

definition header_lines :: "('ds, 'mf) rio \<Rightarrow> ('ds, 'mf) raster \<Rightarrow> error + string list" where
  "header_lines lib h =
     (case self_attr h ''driver'' of Inl e \<Rightarrow> Inl e | Inr driver \<Rightarrow>
     (case self_attr h ''name'' of Inl e \<Rightarrow> Inl e | Inr name \<Rightarrow>
     (case self_attr h ''width'' of Inl e \<Rightarrow> Inl e | Inr width \<Rightarrow>
     (case self_attr h ''height'' of Inl e \<Rightarrow> Inl e | Inr height \<Rightarrow>
     (case self_attr h ''crs'' of Inl e \<Rightarrow> Inl e | Inr crs \<Rightarrow>
     (case crs_to_epsg lib crs of Inl e \<Rightarrow> Inl e | Inr epsg \<Rightarrow>
     (case self_attr h ''nodata'' of Inl e \<Rightarrow> Inl e | Inr nodata \<Rightarrow>
     (case self_attr h ''res'' of Inl e \<Rightarrow> Inl e | Inr res \<Rightarrow>
     (case format2_star lib ''Pixel Size:         '' res of Inl e \<Rightarrow> Inl e | Inr l7 \<Rightarrow>
     (case self_attr h ''bounds'' of Inl e \<Rightarrow> Inl e | Inr bounds \<Rightarrow>
     (case slice_to2 bounds of Inl e \<Rightarrow> Inl e | Inr ul \<Rightarrow>
     (case format2_star lib ''Upper Left Corner:  '' ul of Inl e \<Rightarrow> Inl e | Inr l8 \<Rightarrow>
     (case slice_from2 bounds of Inl e \<Rightarrow> Inl e | Inr lr \<Rightarrow>
     (case format2_star lib ''Lower Right Corner: '' lr of Inl e \<Rightarrow> Inl e | Inr l9 \<Rightarrow>
        Inr [format1sp lib ''Driver:             '' driver,
             format1sp lib ''File on disk:       ''
               (case filename h of None \<Rightarrow> PNone | Some f \<Rightarrow> PStr f),
             format1 lib ''RIO MemoryFile:     '' name,
             format2 lib ''Size:               '' width height,
             format1 lib ''Coordinate System:  EPSG:'' epsg,
             format1 lib ''NoData Value:       '' nodata,
             l7, l8, l9]))))))))))))))"

definition info :: "('ds, 'mf) rio \<Rightarrow> bool \<Rightarrow> ('ds, 'mf) raster \<Rightarrow> error + string" where
  "info lib stats h =
     (case header_lines lib h of
        Inl e \<Rightarrow> Inl e
      | Inr as_str \<Rightarrow>
          (if stats then
             (case stats_lines lib h of
                Inl e \<Rightarrow> Inl e
              | Inr appended \<Rightarrow> Inr (concat (as_str @ appended)))
           else Inr (concat as_str)))"

subsection \<open>\<^verbatim>\<open>crop\<close>\<close>

text \<open>
  The argument \<^verbatim>\<open>cropGeom\<close> by the class tests of the source: a Raster (or a subclass
  such as SatelliteImage), a \<^verbatim>\<open>vt.Vector\<close>, a list or tuple with its items, or any other
  object. The module \<^verbatim>\<open>GeoUtils.vector_tools\<close> is used for this class test only.
\<close>

datatype ('ds, 'mf) cropGeom =
    GRaster "('ds, 'mf) raster"
  | GVector
  | GSeq "pyval list"
  | GOther

text \<open>The \<^verbatim>\<open>isinstance\<close> chain of \<^verbatim>\<open>crop\<close>, giving \<open>(xmin, ymin, xmax, ymax)\<close>.\<close>

definition crop_bounds :: "('ds, 'mf) cropGeom \<Rightarrow> error + (pyval \<times> pyval \<times> pyval \<times> pyval)" where
  "crop_bounds g =
     (case g of
        GRaster r \<Rightarrow> (case self_attr r ''bounds'' of Inl e \<Rightarrow> Inl e | Inr b \<Rightarrow> unpack4 b)
      | GVector \<Rightarrow> Inl NotImplementedError
      | GSeq xs \<Rightarrow> unpack4 (PSeq xs)
      | GOther \<Rightarrow> Inl (ValueError ''cropGeom must be a Raster, Vector, or list of coordinates.''))"

text \<open>
  The branch \<^verbatim>\<open>mode == 'match_pixel'\<close>: the cropped image and the updated metadata.
\<close>

definition crop_match_pixel ::
  "('ds, 'mf) rio \<Rightarrow> ('ds, 'mf) raster \<Rightarrow> pyval \<times> pyval \<times> pyval \<times> pyval \<Rightarrow> (string \<rightharpoonup> pyval)
     \<Rightarrow> error + (ndarray \<times> (string \<rightharpoonup> pyval))" where
  "crop_match_pixel lib h b meta =
     (case b of (xmin, ymin, xmax, ymax) \<Rightarrow>
     (case shapely_polygon lib [(xmin, ymin), (xmax, ymin), (xmax, ymax), (xmin, ymax)] of
        Inl e \<Rightarrow> Inl e
      | Inr crop_bbox \<Rightarrow>
     (case riomask_mask lib (ds h) [crop_bbox] of
        Inl e \<Rightarrow> Inl e
      | Inr (crop_img, tfm) \<Rightarrow>
     (case shape_at crop_img 1 of
        Inl e \<Rightarrow> Inl e
      | Inr hh \<Rightarrow>
     (case shape_at crop_img 2 of
        Inl e \<Rightarrow> Inl e
      | Inr ww \<Rightarrow>
          Inr (crop_img,
               meta(''height'' \<mapsto> PInt (int hh), ''width'' \<mapsto> PInt (int ww),
                    ''transform'' \<mapsto> tfm)))))))"

text \<open>\<^verbatim>\<open>self.nbands\<close> as a Python value.\<close>

definition nbands_val :: "('ds, 'mf) raster \<Rightarrow> pyval" where
  "nbands_val h = (case nbands h of None \<Rightarrow> PNone | Some n \<Rightarrow> PInt (int n))"

text \<open>
  The destination buffer of the branch \<^verbatim>\<open>match_extent\<close>. Both arms read
  \<^verbatim>\<open>self.data.dtype\<close>, which raises AttributeError when \<^verbatim>\<open>self.data\<close> is None.
\<close>

definition new_img ::
  "('ds, 'mf) raster \<Rightarrow> int \<Rightarrow> int \<Rightarrow> error + ndarray" where
  "new_img h new_height new_width =
     (if isLoaded h then
        (case data h of
           None \<Rightarrow> Inl (AttributeError ''dtype'')
         | Some d \<Rightarrow> np_zeros [nbands_val h, PInt new_height, PInt new_width] (dtype d))
      else
        (case self_attr h ''count'' of
           Inl e \<Rightarrow> Inl e
         | Inr c \<Rightarrow>
             (case data h of
                None \<Rightarrow> Inl (AttributeError ''dtype'')
              | Some d \<Rightarrow> np_zeros [c, PInt new_height, PInt new_width] (dtype d))))"

text \<open>The branch \<^verbatim>\<open>match_extent\<close>.\<close>

definition crop_match_extent ::
  "('ds, 'mf) rio \<Rightarrow> ('ds, 'mf) raster \<Rightarrow> pyval \<times> pyval \<times> pyval \<times> pyval \<Rightarrow> (string \<rightharpoonup> pyval)
     \<Rightarrow> error + (ndarray \<times> (string \<rightharpoonup> pyval))" where
  "crop_match_extent lib h b meta =
     (case b of (xmin, ymin, xmax, ymax) \<Rightarrow>
     (case self_attr h ''transform'' of
        Inl e \<Rightarrow> Inl e
      | Inr tr \<Rightarrow>
     (case riowindows_from_bounds lib xmin ymin xmax ymax tr of
        Inl e \<Rightarrow> Inl e
      | Inr win \<Rightarrow>
     (case py_int (w_height win) of
        Inl e \<Rightarrow> Inl e
      | Inr new_height \<Rightarrow>
     (case py_int (w_width win) of
        Inl e \<Rightarrow> Inl e
      | Inr new_width \<Rightarrow>
     (case riotransform_from_bounds lib xmin ymin xmax ymax new_width new_height of
        Inl e \<Rightarrow> Inl e
      | Inr new_tfm \<Rightarrow>
     (case new_img h new_height new_width of
        Inl e \<Rightarrow> Inl e
      | Inr dst \<Rightarrow>
     (case self_attr h ''crs'' of
        Inl e \<Rightarrow> Inl e
      | Inr crs \<Rightarrow>
     (case riowarp_reproject lib (data h) dst tr new_tfm crs crs of
        Inl e \<Rightarrow> Inl e
      | Inr (crop_img, tfm) \<Rightarrow>
          Inr (crop_img,
               meta(''height'' \<mapsto> PInt new_height, ''width'' \<mapsto> PInt new_width,
                    ''transform'' \<mapsto> tfm)))))))))))"

text \<open>The message of the assertion on \<^verbatim>\<open>mode\<close>; it ends with a quote character.\<close>

definition mode_message :: string where
  "mode_message = ''mode must be one of 'match_pixel', 'match_extent'' @ [CHR 0x27]"

text \<open>
  \<^verbatim>\<open>crop\<close> returns the outcome together with the object as the call leaves it, so that
  a raise after a partial update is visible.
\<close>

definition crop ::
  "('ds, 'mf) rio \<Rightarrow> ('ds, 'mf) cropGeom \<Rightarrow> string \<Rightarrow> ('ds, 'mf) raster \<Rightarrow> outcome \<times> ('ds, 'mf) raster" where
  "crop lib cropGeom mode h =
     (if mode \<in> set [''match_extent'', ''match_pixel''] then
        (case crop_bounds cropGeom of
           Inl e \<Rightarrow> (Raised e, h)
         | Inr b \<Rightarrow>
        (case ds_meta lib (ds h) of
           Inl e \<Rightarrow> (Raised e, h)
         | Inr meta \<Rightarrow>
        (case (if mode = ''match_pixel'' then crop_match_pixel lib h b meta
               else crop_match_extent lib h b meta) of
           Inl e \<Rightarrow> (Raised e, h)
         | Inr (crop_img, meta') \<Rightarrow> update lib crop_img meta' h)))
      else (Raised (AssertionError mode_message), h))"

subsection \<open>A contract of the in-memory dataset\<close>

text \<open>
  What \<^verbatim>\<open>_update\<close> relies on when it rebuilds the dataset from a metadata dict: a
  dataset opened from a memory file reports, under \<^verbatim>\<open>meta\<close>, the CRS, nodata value,
  driver and dtype the file was written with. This is a property of the library, stated
  here so that theorems can name it as an assumption.
\<close>

definition written_metadata_kept :: "('ds, 'mf) rio \<Rightarrow> bool" where
  "written_metadata_kept lib =
     (\<forall>md img mf d. memfile_write lib md img = Inr mf \<longrightarrow> memfile_open lib mf = Inr d \<longrightarrow>
        (\<exists>new. ds_meta lib d = Inr new \<and> new ''crs'' = md ''crs'' \<and> new ''nodata'' = md ''nodata'' \<and>
           new ''driver'' = md ''driver'' \<and> new ''dtype'' = md ''dtype''))"

section \<open>A small library instance and two objects\<close>

text \<open>
  A stand-in for the libraries, used to run the definitions on concrete input. A dataset
  is its metadata table and its pixel array, a memory file is the dataset it holds. It
  covers single-band rasters with integer coordinates and bounds on the pixel grid:
  \<^item> the attributes of a dataset are computed from its metadata (bounds, resolution and
    shape from the transform, width and height); a name that is no attribute raises;
  \<^item> a rectangle is kept as its corners \<open>[xmin, ymin, xmax, ymax]\<close>, and the mask returns
    the block of pixels under it with the transform of that block;
  \<^item> the window of some bounds is their extent divided by the pixel size, and the
    transform from bounds divides the extent by the numbers of columns and rows;
  \<^item> the image is constant, so every block of it and every resampling of it is the
    constant array of the shape asked for.
  The file \<^verbatim>\<open>dem.tif\<close> holds one band of 4 by 4 pixels of size 5 over (0, 0, 20, 20).
\<close>

type_synonym demo_ds = "(string \<rightharpoonup> pyval) \<times> ndarray"

definition demo_transform :: pyval where
  "demo_transform = PSeq [PInt 5, PInt 0, PInt 0, PInt 0, PInt (- 5), PInt 20]"

definition demo_meta :: "string \<rightharpoonup> pyval" where
  "demo_meta =
     [''driver'' \<mapsto> PStr ''GTiff'', ''dtype'' \<mapsto> PStr ''uint8'', ''nodata'' \<mapsto> PNone,
      ''width'' \<mapsto> PInt 4, ''height'' \<mapsto> PInt 4, ''count'' \<mapsto> PInt 1,
      ''crs'' \<mapsto> PObj 32633, ''transform'' \<mapsto> demo_transform]"

definition demo_img :: ndarray where
  "demo_img = \<lparr>dtype = ''uint8'', shape = [1, 4, 4], vals = replicate 16 (Fin 7)\<rparr>"

definition demo_file :: demo_ds where
  "demo_file = (demo_meta, demo_img)"

text \<open>An integer value, and the \<open>i\<close>-th number of a sequence (0 where there is none).\<close>

definition demo_num :: "pyval \<Rightarrow> int" where
  "demo_num v = (case v of PInt n \<Rightarrow> n | _ \<Rightarrow> 0)"

definition demo_coef :: "pyval \<Rightarrow> nat \<Rightarrow> int" where
  "demo_coef v i =
     (case v of PSeq xs \<Rightarrow> (if i < length xs then demo_num (xs ! i) else 0) | _ \<Rightarrow> 0)"

definition demo_entry :: "(string \<rightharpoonup> pyval) \<Rightarrow> string \<Rightarrow> pyval" where
  "demo_entry m k = (case m k of None \<Rightarrow> PNone | Some v \<Rightarrow> v)"

definition demo_getattr :: "demo_ds \<Rightarrow> string \<Rightarrow> error + pyval" where
  "demo_getattr d n =
     (if n = ''bounds'' then
        Inr (PSeq [PInt (demo_coef (demo_entry (fst d) ''transform'') 2),
                   PInt (demo_coef (demo_entry (fst d) ''transform'') 5
                         + demo_coef (demo_entry (fst d) ''transform'') 4
                           * demo_num (demo_entry (fst d) ''height'')),
                   PInt (demo_coef (demo_entry (fst d) ''transform'') 2
                         + demo_coef (demo_entry (fst d) ''transform'') 0
                           * demo_num (demo_entry (fst d) ''width'')),
                   PInt (demo_coef (demo_entry (fst d) ''transform'') 5)])
      else if n = ''res'' then
        Inr (PSeq [PInt (demo_coef (demo_entry (fst d) ''transform'') 0),
                   PInt (- demo_coef (demo_entry (fst d) ''transform'') 4)])
      else if n = ''shape'' then
        Inr (PSeq [demo_entry (fst d) ''height'', demo_entry (fst d) ''width''])
      else if n = ''dtypes'' then Inr (PSeq [demo_entry (fst d) ''dtype''])
      else if n = ''indexes'' then Inr (PSeq [PInt 1])
      else if n = ''name'' then Inr (PStr ''/vsimem/dem.tif'')
      else if n = ''dataset_mask'' then Inr (PObj 0)
      else if n = ''closed'' then Inr (PBool False)
      else if n \<in> set [''count'', ''crs'', ''driver'', ''height'', ''nodata'', ''transform'', ''width'']
        then Inr (demo_entry (fst d) n)
      else Inl (AttributeError n))"

definition demo_polygon :: "(pyval \<times> pyval) list \<Rightarrow> error + pyval" where
  "demo_polygon vs =
     (case vs of
        [(x0, y0), _, (x1, y1), _] \<Rightarrow> Inr (PSeq [x0, y0, x1, y1])
      | _ \<Rightarrow> Inl (LibraryError ''not a rectangle''))"

definition demo_block :: "ndarray \<Rightarrow> nat \<Rightarrow> nat \<Rightarrow> ndarray" where
  "demo_block a r c =
     \<lparr>dtype = dtype a, shape = [1, r, c],
      vals = replicate (r * c) (case vals a of [] \<Rightarrow> Fin 0 | x # _ \<Rightarrow> x)\<rparr>"

definition demo_mask :: "demo_ds \<Rightarrow> pyval list \<Rightarrow> error + (ndarray \<times> pyval)" where
  "demo_mask d shapes =
     (case shapes of
        [p] \<Rightarrow>
          (if demo_coef (demo_entry (fst d) ''transform'') 0 = 0
              \<or> demo_coef (demo_entry (fst d) ''transform'') 4 = 0
           then Inl (LibraryError ''degenerate transform'')
           else
             Inr (demo_block (snd d)
                    (nat ((demo_coef p 1 - demo_coef p 3) div demo_coef (demo_entry (fst d) ''transform'') 4))
                    (nat ((demo_coef p 2 - demo_coef p 0) div demo_coef (demo_entry (fst d) ''transform'') 0)),
                  PSeq [PInt (demo_coef (demo_entry (fst d) ''transform'') 0), PInt 0, PInt (demo_coef p 0),
                        PInt 0, PInt (demo_coef (demo_entry (fst d) ''transform'') 4),
                        PInt (demo_coef p 3)]))
      | _ \<Rightarrow> Inl (LibraryError ''one shape expected''))"

definition demo_window :: "pyval \<Rightarrow> pyval \<Rightarrow> pyval \<Rightarrow> pyval \<Rightarrow> pyval \<Rightarrow> error + window" where
  "demo_window xmin ymin xmax ymax t =
     (if demo_coef t 0 = 0 \<or> demo_coef t 4 = 0 then Inl (LibraryError ''degenerate transform'')
      else
        Inr \<lparr>w_height = Fin (of_int (demo_num ymin - demo_num ymax) / of_int (demo_coef t 4)),
             w_width = Fin (of_int (demo_num xmax - demo_num xmin) / of_int (demo_coef t 0))\<rparr>)"

definition demo_from_bounds :: "pyval \<Rightarrow> pyval \<Rightarrow> pyval \<Rightarrow> pyval \<Rightarrow> int \<Rightarrow> int \<Rightarrow> error + pyval" where
  "demo_from_bounds xmin ymin xmax ymax w h =
     (if w = 0 \<or> h = 0 then Inl (LibraryError ''division by zero'')
      else
        Inr (PSeq [PInt ((demo_num xmax - demo_num xmin) div w), PInt 0, PInt (demo_num xmin),
                   PInt 0, PInt ((demo_num ymin - demo_num ymax) div h), PInt (demo_num ymax)]))"

definition demo_reproject ::
  "ndarray option \<Rightarrow> ndarray \<Rightarrow> pyval \<Rightarrow> pyval \<Rightarrow> pyval \<Rightarrow> pyval \<Rightarrow> error + (ndarray \<times> pyval)" where
  "demo_reproject src dst st dt sc dc =
     (case src of
        None \<Rightarrow> Inl (LibraryError ''no source'')
      | Some a \<Rightarrow>
          Inr (dst\<lparr>vals := replicate (length (vals dst)) (case vals a of [] \<Rightarrow> Fin 0 | x # _ \<Rightarrow> x)\<rparr>,
               dt))"

definition demo_rio :: "(demo_ds, demo_ds) rio" where
  "demo_rio =
     \<lparr>os_abspath = (\<lambda>f. ''/data/'' @ f),
      memfile_from_path = (\<lambda>f. if f = ''dem.tif'' then Inr demo_file else Inl (LibraryError ''No such file'')),
      memfile_open = Inr,
      memfile_write = (\<lambda>md img. Inr (md, img)),
      ds_getattr = demo_getattr,
      ds_meta = (\<lambda>d. Inr (fst d)),
      ds_read = (\<lambda>d. Inr (snd d)),
      ds_read_bands = (\<lambda>d b. Inr (snd d)),
      shapely_polygon = demo_polygon,
      riomask_mask = demo_mask,
      riowindows_from_bounds = demo_window,
      riotransform_from_bounds = demo_from_bounds,
      riowarp_reproject = demo_reproject,
      crs_to_epsg = (\<lambda>c. Inr (PInt 32633)),
      np_nanmax = (\<lambda>a. Inr (Fin 7)),
      np_nanmin = (\<lambda>a. Inr (Fin 7)),
      np_nanmedian = (\<lambda>a. Inr (Fin 7)),
      np_nanmean = (\<lambda>a. Inr (Fin 7)),
      np_nanstd = (\<lambda>a. Inr (Fin 0)),
      py_str = (\<lambda>v. case v of PStr s \<Rightarrow> s | _ \<Rightarrow> ''?''),
      fmt_2f = (\<lambda>x. ''7.00'')\<rparr>"

text \<open>The object the constructor builds from \<^verbatim>\<open>dem.tif\<close>, without and with its pixels.\<close>

definition demo_attrs :: "string \<rightharpoonup> pyval" where
  "demo_attrs =
     [''bounds'' \<mapsto> PSeq [PInt 0, PInt 0, PInt 20, PInt 20], ''count'' \<mapsto> PInt 1,
      ''crs'' \<mapsto> PObj 32633, ''dataset_mask'' \<mapsto> PObj 0, ''driver'' \<mapsto> PStr ''GTiff'',
      ''dtypes'' \<mapsto> PSeq [PStr ''uint8''], ''height'' \<mapsto> PInt 4, ''indexes'' \<mapsto> PSeq [PInt 1],
      ''name'' \<mapsto> PStr ''/vsimem/dem.tif'', ''nodata'' \<mapsto> PNone, ''res'' \<mapsto> PSeq [PInt 5, PInt 5],
      ''shape'' \<mapsto> PSeq [PInt 4, PInt 4], ''transform'' \<mapsto> demo_transform, ''width'' \<mapsto> PInt 4]"

definition demo_unloaded :: "(demo_ds, demo_ds) raster" where
  "demo_unloaded =
     \<lparr>filename = Some ''/data/dem.tif'', memfile = demo_file, ds = demo_file,
      saved_attrs = default_attrs, attrs = demo_attrs, data = None, nbands = None,
      isLoaded = False\<rparr>"

definition demo_loaded :: "(demo_ds, demo_ds) raster" where
  "demo_loaded = demo_unloaded\<lparr>data := Some demo_img, nbands := Some 1, isLoaded := True\<rparr>"

text \<open>The block of 2 by 2 pixels under the bounds (0, 0, 10, 10).\<close>

definition demo_cropped_img :: ndarray where
  "demo_cropped_img = \<lparr>dtype = ''uint8'', shape = [1, 2, 2], vals = replicate 4 (Fin 7)\<rparr>"

section \<open>Frame lemmas for the helpers\<close>

lemmas demo_defs = demo_rio_def demo_getattr_def demo_file_def demo_meta_def default_attrs_def
  demo_attrs_def demo_unloaded_def demo_loaded_def demo_entry_def demo_coef_def demo_num_def
  demo_transform_def

lemma init_demo_unloaded: "init demo_rio ''dem.tif'' AttrsNone False None = Inr demo_unloaded"
  by (simp add: init_def read_attrs_def demo_defs)

lemma init_demo_loaded: "init demo_rio ''dem.tif'' AttrsNone True None = Inr demo_loaded"
  by (simp add: init_def read_attrs_def load_def ndim_def demo_defs demo_img_def)


lemma mirror_frame:
  "mirror lib as h = (r, h') \<Longrightarrow>
     ds h' = ds h \<and> memfile h' = memfile h \<and> data h' = data h \<and> nbands h' = nbands h \<and>
     isLoaded h' = isLoaded h \<and> saved_attrs h' = saved_attrs h \<and> filename h' = filename h"
proof (induction as arbitrary: h)
  case Nil
  then show ?case by simp
next
  case (Cons a as)
  show ?case
  proof (cases "ds_getattr lib (ds h) a")
    case (Inl e)
    with Cons.prems show ?thesis by simp
  next
    case (Inr v)
    with Cons.prems have "mirror lib as (h\<lparr>attrs := (attrs h)(a \<mapsto> v)\<rparr>) = (r, h')" by simp
    from Cons.IH [OF this] show ?thesis by simp
  qed
qed




lemma read_attrs_frame:
  "read_attrs lib arg h = (r, h') \<Longrightarrow>
     ds h' = ds h \<and> memfile h' = memfile h \<and> data h' = data h \<and> nbands h' = nbands h \<and>
     isLoaded h' = isLoaded h \<and> filename h' = filename h"
  by (cases arg) (auto simp: read_attrs_def dest!: mirror_frame)

lemma load_frame:
  "load lib bands h = (r, h') \<Longrightarrow>
     ds h' = ds h \<and> memfile h' = memfile h \<and> isLoaded h' = isLoaded h \<and> attrs h' = attrs h \<and>
     saved_attrs h' = saved_attrs h \<and> filename h' = filename h"
  by (auto simp: load_def split: sum.splits)

lemma update_ok:
  assumes "update lib img md h = (Ok, h')"
  shows "\<exists>mf. memfile_write lib md img = Inr mf \<and> memfile_open lib mf = Inr (ds h') \<and>
           memfile h' = mf \<and> isLoaded h' = isLoaded h \<and>
           (if isLoaded h then \<exists>a. ds_read lib (ds h') = Inr a \<and> data h' = Some a
            else data h' = data h)"
proof -
  from assms obtain mf where w: "memfile_write lib md img = Inr mf"
    by (auto simp: update_def split: sum.splits)
  from assms w obtain d where o: "memfile_open lib mf = Inr d"
    by (auto simp: update_def split: sum.splits)
  let ?h1 = "h\<lparr>memfile := mf, ds := d\<rparr>"
  from assms w o obtain h2 where r: "read_attrs lib AttrsNone ?h1 = (Ok, h2)"
    by (auto simp: update_def split: prod.splits outcome.splits)
  from read_attrs_frame [OF r]
  have f2: "ds h2 = d" "memfile h2 = mf" "data h2 = data h" "isLoaded h2 = isLoaded h" by simp_all
  from assms w o r have fin: "(if isLoaded h2 then load lib None h2 else (Ok, h2)) = (Ok, h')"
    by (simp add: update_def)
  show ?thesis
  proof (cases "isLoaded h")
    case True
    with fin f2 have l: "load lib None h2 = (Ok, h')" by simp
    from load_frame [OF l] f2 have "ds h' = d" "memfile h' = mf" "isLoaded h' = isLoaded h" by simp_all
    moreover from l f2 \<open>ds h' = d\<close> have "\<exists>a. ds_read lib (ds h') = Inr a \<and> data h' = Some a"
      by (auto simp: load_def split: sum.splits)
    ultimately show ?thesis using w o True by simp
  next
    case False
    with fin f2 have "h' = h2" by simp
    with f2 w o False show ?thesis by simp
  qed
qed

lemma new_img_needs_buffer: "new_img h a b = Inr x \<Longrightarrow> data h \<noteq> None"
  by (auto simp: new_img_def split: sum.splits if_splits option.splits)

lemma crop_match_extent_no_buffer:
  assumes "data h = None"
  shows "\<exists>e. crop_match_extent lib h b meta = Inl e"
proof -
  obtain xmin ymin xmax ymax where b: "b = (xmin, ymin, xmax, ymax)" by (cases b) auto
  show ?thesis
    using assms
    by (auto simp: crop_match_extent_def b split: sum.splits dest: new_img_needs_buffer)
qed

lemma crop_ok_update:
  assumes "crop lib cropGeom mode h = (Ok, h')"
  shows "\<exists>b meta img md. crop_bounds cropGeom = Inr b \<and> ds_meta lib (ds h) = Inr meta \<and>
           (if mode = ''match_pixel'' then crop_match_pixel lib h b meta
            else crop_match_extent lib h b meta) = Inr (img, md) \<and>
           update lib img md h = (Ok, h')"
  using assms by (auto simp: crop_def split: if_splits sum.splits)

lemma crop_match_pixel_meta:
  "crop_match_pixel lib h b meta = Inr (img, md) \<Longrightarrow>
     \<forall>k. k \<notin> {''height'', ''width'', ''transform''} \<longrightarrow> md k = meta k"
  by (cases b) (auto simp: crop_match_pixel_def split: sum.splits)

lemma crop_match_extent_meta:
  "crop_match_extent lib h b meta = Inr (img, md) \<Longrightarrow>
     \<forall>k. k \<notin> {''height'', ''width'', ''transform''} \<longrightarrow> md k = meta k"
  by (cases b) (auto simp: crop_match_extent_def split: sum.splits)

lemma first_of_replicate: "0 < n \<Longrightarrow> (case replicate n x of [] \<Rightarrow> d | y # ys \<Rightarrow> y) = x"
  by (cases n) simp_all

lemmas crop_pixel_eval = crop_def crop_bounds_def unpack4_def py_iter_def crop_match_pixel_def
  self_attr_def shape_at_def update_def read_attrs_def load_def ndim_def demo_defs demo_img_def
  demo_polygon_def demo_mask_def demo_block_def demo_cropped_img_def first_of_replicate

lemmas crop_extent_eval = crop_def crop_bounds_def unpack4_def py_iter_def crop_match_extent_def
  self_attr_def py_int_def new_img_def np_zeros_def nbands_val_def update_def read_attrs_def
  load_def ndim_def demo_defs demo_img_def demo_window_def demo_from_bounds_def
  demo_reproject_def demo_cropped_img_def first_of_replicate

lemma demo_crop_pixel_ok:
  "fst (crop demo_rio (GSeq [PInt 0, PInt 0, PInt 10, PInt 10]) ''match_pixel'' demo_loaded) = Ok"
  by (simp add: crop_pixel_eval)

lemma demo_crop_pixel_data:
  "data (snd (crop demo_rio (GSeq [PInt 0, PInt 0, PInt 10, PInt 10]) ''match_pixel'' demo_loaded))
     = Some demo_cropped_img"
  by (simp add: crop_pixel_eval)

lemma demo_crop_extent_ok:
  "fst (crop demo_rio (GSeq [PInt 0, PInt 0, PInt 10, PInt 10]) ''match_extent'' demo_loaded) = Ok"
  by (simp add: crop_extent_eval)

lemma crop_match_pixel_result:
  assumes "crop_match_pixel lib h (xmin, ymin, xmax, ymax) old = Inr (img, md)"
  shows "\<exists>bbox tfm.
           shapely_polygon lib [(xmin, ymin), (xmax, ymin), (xmax, ymax), (xmin, ymax)] = Inr bbox \<and>
           riomask_mask lib (ds h) [bbox] = Inr (img, tfm) \<and> 2 < length (shape img) \<and>
           md = old(''height'' \<mapsto> PInt (int (shape img ! 1)),
                    ''width'' \<mapsto> PInt (int (shape img ! 2)), ''transform'' \<mapsto> tfm)"
  using assms by (auto simp: crop_match_pixel_def shape_at_def split: sum.splits if_splits)

lemma crop_match_extent_result:
  assumes "crop_match_extent lib h (xmin, ymin, xmax, ymax) old = Inr (img, md)"
  shows "\<exists>tr win new_height new_width new_tfm dst crs tfm.
           self_attr h ''transform'' = Inr tr \<and>
           riowindows_from_bounds lib xmin ymin xmax ymax tr = Inr win \<and>
           py_int (w_height win) = Inr new_height \<and> py_int (w_width win) = Inr new_width \<and>
           riotransform_from_bounds lib xmin ymin xmax ymax new_width new_height = Inr new_tfm \<and>
           new_img h new_height new_width = Inr dst \<and> self_attr h ''crs'' = Inr crs \<and>
           riowarp_reproject lib (data h) dst tr new_tfm crs crs = Inr (img, tfm) \<and>
           md = old(''height'' \<mapsto> PInt new_height, ''width'' \<mapsto> PInt new_width,
                    ''transform'' \<mapsto> tfm)"
  using assms by (auto simp: crop_match_extent_def split: sum.splits)

lemma demo_written_metadata_kept: "written_metadata_kept demo_rio"
  by (simp add: written_metadata_kept_def demo_rio_def)

section \<open>The claims\<close>

subsection \<open>C1: \<^verbatim>\<open>match_extent\<close> on an object without pixel buffer\<close>

text \<open>
  C1 says that a crop in mode \<^verbatim>\<open>match_extent\<close> takes the band count of the destination
  buffer from the loaded buffer, else from the declared band count of the dataset, and
  that it succeeds on an object that is not loaded. The source reads
  \<^verbatim>\<open>self.data.dtype\<close> in both arms, so for every library, every \<^verbatim>\<open>cropGeom\<close> and
  every object whose \<^verbatim>\<open>data\<close> is None the call raises and leaves the object as it was:
  the arm for the declared band count can never complete.
\<close>

theorem crop_match_extent_unloaded_raises:
  assumes "data h = None"
  shows "\<exists>e. crop lib cropGeom ''match_extent'' h = (Raised e, h)"
proof (cases "crop_bounds cropGeom")
  case (Inl e)
  then show ?thesis by (simp add: crop_def)
next
  case b: (Inr b)
  show ?thesis
  proof (cases "ds_meta lib (ds h)")
    case (Inl e)
    with b show ?thesis by (simp add: crop_def)
  next
    case (Inr meta)
    from crop_match_extent_no_buffer [OF assms]
    obtain e where "crop_match_extent lib h b meta = Inl e" by blast
    with b Inr show ?thesis by (simp add: crop_def)
  qed
qed

theorem crop_match_extent_unloaded_raises_witness:
  "data demo_unloaded = None \<and>
   (\<exists>e. crop demo_rio (GRaster demo_loaded) ''match_extent'' demo_unloaded = (Raised e, demo_unloaded))"
  using crop_match_extent_unloaded_raises [of demo_unloaded demo_rio "GRaster demo_loaded"]
  by (simp add: demo_unloaded_def)

subsection \<open>C2: a mode outside the two recognised strings\<close>

text \<open>
  C2: for every object, every \<^verbatim>\<open>cropGeom\<close> and every mode string other than
  \<^verbatim>\<open>match_pixel\<close> and \<^verbatim>\<open>match_extent\<close>, \<^verbatim>\<open>crop\<close> raises the assertion error on the
  mode, and the object (metadata, dataset, pixel buffer, \<^verbatim>\<open>isLoaded\<close>) is unchanged.
\<close>

theorem crop_invalid_mode:
  assumes "mode \<noteq> ''match_pixel''" and "mode \<noteq> ''match_extent''"
  shows "crop lib cropGeom mode h = (Raised (AssertionError mode_message), h)"
  using assms by (simp add: crop_def)

theorem crop_invalid_mode_witness:
  "''nearest'' \<noteq> ''match_pixel'' \<and> ''nearest'' \<noteq> ''match_extent'' \<and>
   crop demo_rio (GSeq [PInt 0, PInt 0, PInt 10, PInt 10]) ''nearest'' demo_loaded
     = (Raised (AssertionError mode_message), demo_loaded)"
  using crop_invalid_mode [of "''nearest''" demo_rio "GSeq [PInt 0, PInt 0, PInt 10, PInt 10]" demo_loaded]
  by simp

subsection \<open>C3: \<^verbatim>\<open>isLoaded\<close> and the pixel buffer after a crop\<close>

text \<open>
  C3: after any successful crop, in either mode, \<^verbatim>\<open>isLoaded\<close> is what it was before.
  The dataset of the object is the new, cropped one: it was opened from the memory file
  written with the image that the mask (mode \<^verbatim>\<open>match_pixel\<close>) or the reprojection into
  the zero buffer (mode \<^verbatim>\<open>match_extent\<close>) returned for the requested bounds, under the
  metadata of the old dataset updated with the height, width and transform of that
  image. If \<^verbatim>\<open>isLoaded\<close> holds, the pixel buffer is a fresh read of this dataset; if
  not, the buffer is left as it was.
\<close>

theorem crop_keeps_isLoaded:
  assumes "crop lib cropGeom mode h = (Ok, h')"
  shows "\<exists>xmin ymin xmax ymax old img tfm md mf.
           crop_bounds cropGeom = Inr (xmin, ymin, xmax, ymax) \<and>
           ds_meta lib (ds h) = Inr old \<and>
           (if mode = ''match_pixel'' then
              (\<exists>bbox.
                 shapely_polygon lib [(xmin, ymin), (xmax, ymin), (xmax, ymax), (xmin, ymax)] = Inr bbox \<and>
                 riomask_mask lib (ds h) [bbox] = Inr (img, tfm) \<and> 2 < length (shape img) \<and>
                 md = old(''height'' \<mapsto> PInt (int (shape img ! 1)),
                          ''width'' \<mapsto> PInt (int (shape img ! 2)), ''transform'' \<mapsto> tfm))
            else
              (\<exists>tr win new_height new_width new_tfm dst crs.
                 self_attr h ''transform'' = Inr tr \<and>
                 riowindows_from_bounds lib xmin ymin xmax ymax tr = Inr win \<and>
                 py_int (w_height win) = Inr new_height \<and> py_int (w_width win) = Inr new_width \<and>
                 riotransform_from_bounds lib xmin ymin xmax ymax new_width new_height = Inr new_tfm \<and>
                 new_img h new_height new_width = Inr dst \<and> self_attr h ''crs'' = Inr crs \<and>
                 riowarp_reproject lib (data h) dst tr new_tfm crs crs = Inr (img, tfm) \<and>
                 md = old(''height'' \<mapsto> PInt new_height, ''width'' \<mapsto> PInt new_width,
                          ''transform'' \<mapsto> tfm))) \<and>
           memfile_write lib md img = Inr mf \<and> memfile_open lib mf = Inr (ds h') \<and>
           memfile h' = mf \<and>
           isLoaded h' = isLoaded h \<and>
           (isLoaded h \<longrightarrow> (\<exists>a. ds_read lib (ds h') = Inr a \<and> data h' = Some a)) \<and>
           (\<not> isLoaded h \<longrightarrow> data h' = data h)"
proof -
  from crop_ok_update [OF assms] obtain b old img md where
    b: "crop_bounds cropGeom = Inr b" and m: "ds_meta lib (ds h) = Inr old" and
    c: "(if mode = ''match_pixel'' then crop_match_pixel lib h b old
         else crop_match_extent lib h b old) = Inr (img, md)" and
    u: "update lib img md h = (Ok, h')" by blast
  obtain xmin ymin xmax ymax where bb: "b = (xmin, ymin, xmax, ymax)" by (cases b) auto
  from update_ok [OF u] obtain mf where
    w: "memfile_write lib md img = Inr mf" "memfile_open lib mf = Inr (ds h')" "memfile h' = mf" and
    l: "isLoaded h' = isLoaded h"
       "isLoaded h \<longrightarrow> (\<exists>a. ds_read lib (ds h') = Inr a \<and> data h' = Some a)"
       "\<not> isLoaded h \<longrightarrow> data h' = data h"
    by (auto split: if_splits)
  show ?thesis
  proof (cases "mode = ''match_pixel''")
    case True
    with c bb have "crop_match_pixel lib h (xmin, ymin, xmax, ymax) old = Inr (img, md)" by simp
    from crop_match_pixel_result [OF this] obtain bbox tfm where
      "shapely_polygon lib [(xmin, ymin), (xmax, ymin), (xmax, ymax), (xmin, ymax)] = Inr bbox"
      "riomask_mask lib (ds h) [bbox] = Inr (img, tfm)" "2 < length (shape img)"
      "md = old(''height'' \<mapsto> PInt (int (shape img ! 1)),
                ''width'' \<mapsto> PInt (int (shape img ! 2)), ''transform'' \<mapsto> tfm)"
      by blast
    with True b bb m w l show ?thesis by (intro exI conjI) (simp_all, blast)
  next
    case False
    with c bb have "crop_match_extent lib h (xmin, ymin, xmax, ymax) old = Inr (img, md)" by simp
    from crop_match_extent_result [OF this] obtain tr win new_height new_width new_tfm dst crs tfm where
      "self_attr h ''transform'' = Inr tr"
      "riowindows_from_bounds lib xmin ymin xmax ymax tr = Inr win"
      "py_int (w_height win) = Inr new_height" "py_int (w_width win) = Inr new_width"
      "riotransform_from_bounds lib xmin ymin xmax ymax new_width new_height = Inr new_tfm"
      "new_img h new_height new_width = Inr dst" "self_attr h ''crs'' = Inr crs"
      "riowarp_reproject lib (data h) dst tr new_tfm crs crs = Inr (img, tfm)"
      "md = old(''height'' \<mapsto> PInt new_height, ''width'' \<mapsto> PInt new_width,
                ''transform'' \<mapsto> tfm)"
      by blast
    with False b bb m w l show ?thesis by (intro exI conjI) (simp_all, blast)
  qed
qed

text \<open>
  On the loaded object, the crop to (0, 0, 10, 10) succeeds, keeps \<^verbatim>\<open>isLoaded\<close>, and the
  buffer afterwards is the block of 2 by 2 pixels read from the new dataset, not the 4
  by 4 buffer held before.
\<close>

theorem crop_keeps_isLoaded_witness:
  "fst (crop demo_rio (GSeq [PInt 0, PInt 0, PInt 10, PInt 10]) ''match_pixel'' demo_loaded) = Ok \<and>
   isLoaded demo_loaded \<and>
   isLoaded (snd (crop demo_rio (GSeq [PInt 0, PInt 0, PInt 10, PInt 10]) ''match_pixel'' demo_loaded)) \<and>
   ds_read demo_rio
       (ds (snd (crop demo_rio (GSeq [PInt 0, PInt 0, PInt 10, PInt 10]) ''match_pixel'' demo_loaded)))
     = Inr demo_cropped_img \<and>
   data (snd (crop demo_rio (GSeq [PInt 0, PInt 0, PInt 10, PInt 10]) ''match_pixel'' demo_loaded))
     = Some demo_cropped_img \<and>
   data demo_loaded = Some demo_img \<and> demo_cropped_img \<noteq> demo_img"
proof -
  let ?c = "crop demo_rio (GSeq [PInt 0, PInt 0, PInt 10, PInt 10]) ''match_pixel'' demo_loaded"
  have ok: "fst ?c = Ok" by (rule demo_crop_pixel_ok)
  then have eq: "?c = (Ok, snd ?c)" by (metis prod.collapse)
  have l: "isLoaded demo_loaded" "data demo_loaded = Some demo_img"
    by (simp_all add: demo_loaded_def demo_unloaded_def)
  have d: "data (snd ?c) = Some demo_cropped_img" by (rule demo_crop_pixel_data)
  have n: "demo_cropped_img \<noteq> demo_img" by (simp add: demo_cropped_img_def demo_img_def)
  from crop_keeps_isLoaded [OF eq] l
  have "isLoaded (snd ?c)" and "\<exists>a. ds_read demo_rio (ds (snd ?c)) = Inr a \<and> data (snd ?c) = Some a"
    by auto
  with d have "isLoaded (snd ?c)" and "ds_read demo_rio (ds (snd ?c)) = Inr demo_cropped_img" by auto
  with ok l d n show ?thesis by simp
qed

subsection \<open>C4: a vector geometry as \<^verbatim>\<open>cropGeom\<close>\<close>

text \<open>
  C4 as stated (NotImplementedError for every mode argument) fails: the assertion on the
  mode comes first, so with the mode \<^verbatim>\<open>nearest\<close> a vector geometry raises the
  assertion error.
\<close>

theorem crop_vector_invalid_mode_counterexample:
  "crop demo_rio GVector ''nearest'' demo_loaded = (Raised (AssertionError mode_message), demo_loaded) \<and>
   fst (crop demo_rio GVector ''nearest'' demo_loaded) \<noteq> Raised NotImplementedError"
  by (simp add: crop_def)

text \<open>
  C4, amended: for every object, a vector geometry raises NotImplementedError with either
  recognised mode, and the assertion error on the mode with any other; the object is
  unchanged in both cases.
\<close>

theorem crop_vector_not_implemented:
  "crop lib GVector mode h =
     (Raised (if mode \<in> {''match_pixel'', ''match_extent''} then NotImplementedError
              else AssertionError mode_message), h)"
  by (simp add: crop_def crop_bounds_def)

theorem crop_vector_not_implemented_witness:
  "crop demo_rio GVector ''match_extent'' demo_loaded = (Raised NotImplementedError, demo_loaded) \<and>
   crop demo_rio GVector ''match_pixel'' demo_unloaded = (Raised NotImplementedError, demo_unloaded)"
  using crop_vector_not_implemented [of demo_rio "''match_extent''" demo_loaded]
    crop_vector_not_implemented [of demo_rio "''match_pixel''" demo_unloaded]
  by simp

subsection \<open>C5: the tuple (0, 0, 10, 10) in mode \<^verbatim>\<open>match_extent\<close>\<close>

text \<open>
  C5 promises, for every object, a cropped object with the bounds (0, 0, 10, 10). The
  object that the constructor gives without \<^verbatim>\<open>load_data\<close> is a counter-instance in the
  code: the crop raises AttributeError at \<^verbatim>\<open>self.data.dtype\<close> and nothing is cropped.
\<close>

theorem crop_tuple_match_extent_unloaded:
  "init demo_rio ''dem.tif'' AttrsNone False None = Inr demo_unloaded \<and>
   crop demo_rio (GSeq [PInt 0, PInt 0, PInt 10, PInt 10]) ''match_extent'' demo_unloaded
     = (Raised (AttributeError ''dtype''), demo_unloaded)"
  by (simp add: init_demo_unloaded)
     (simp add: crop_def crop_bounds_def unpack4_def py_iter_def crop_match_extent_def self_attr_def
        py_int_def new_img_def demo_defs demo_window_def demo_from_bounds_def)

subsection \<open>C6: statistics without pixel buffer\<close>

text \<open>
  C6 as stated (the call fails) does not hold: the block under \<^verbatim>\<open>if stats:\<close> is
  guarded by \<^verbatim>\<open>if self.data is not None:\<close>, so the object that the constructor gives
  without \<^verbatim>\<open>load_data\<close> gets its nine summary lines and no error.
\<close>

theorem info_stats_unloaded_counterexample:
  "data demo_unloaded = None \<and>
   info demo_rio True demo_unloaded =
     Inr (''Driver:             GTiff '' @ newline @
          ''File on disk:       /data/dem.tif '' @ newline @
          ''RIO MemoryFile:     /vsimem/dem.tif'' @ newline @
          ''Size:               ?, ?'' @ newline @
          ''Coordinate System:  EPSG:?'' @ newline @
          ''NoData Value:       ?'' @ newline @
          ''Pixel Size:         ?, ?'' @ newline @
          ''Upper Left Corner:  ?, ?'' @ newline @
          ''Lower Right Corner: ?, ?'' @ newline)"
  by (simp add: info_def header_lines_def stats_lines_def self_attr_def format2_star_def py_iter_def
     slice_to2_def slice_from2_def format2_def format1_def format1sp_def newline_def demo_defs)

text \<open>
  C6, amended: for every object whose \<^verbatim>\<open>data\<close> is None, \<^verbatim>\<open>info\<close> with statistics
  requested returns exactly what \<^verbatim>\<open>info\<close> without statistics returns.
\<close>

theorem info_stats_without_buffer:
  assumes "data h = None"
  shows "info lib True h = info lib False h"
  using assms by (simp add: info_def stats_lines_def split: sum.splits)

theorem info_stats_without_buffer_witness:
  "data demo_unloaded = None \<and> info demo_rio True demo_unloaded = info demo_rio False demo_unloaded"
  using info_stats_without_buffer [of demo_unloaded demo_rio]
  by (simp add: demo_unloaded_def)

subsection \<open>C7: a \<^verbatim>\<open>cropGeom\<close> of another type\<close>

text \<open>
  C7: for every object, a \<^verbatim>\<open>cropGeom\<close> that is neither a Raster, a Vector nor a list or
  tuple makes \<^verbatim>\<open>crop\<close> raise a configuration error: the ValueError on \<^verbatim>\<open>cropGeom\<close>
  with a recognised mode, the assertion error on the mode otherwise. The result does not
  depend on the library (no call into it is made) and the object is unchanged.
\<close>

theorem crop_other_geometry:
  "crop lib GOther mode h =
     (Raised (if mode \<in> {''match_pixel'', ''match_extent''}
              then ValueError ''cropGeom must be a Raster, Vector, or list of coordinates.''
              else AssertionError mode_message), h)"
  by (simp add: crop_def crop_bounds_def)

theorem crop_other_geometry_witness:
  "crop demo_rio GOther ''match_pixel'' demo_loaded
     = (Raised (ValueError ''cropGeom must be a Raster, Vector, or list of coordinates.''), demo_loaded) \<and>
   crop demo_rio GOther ''nearest'' demo_loaded = (Raised (AssertionError mode_message), demo_loaded)"
  using crop_other_geometry [of demo_rio "''match_pixel''" demo_loaded]
    crop_other_geometry [of demo_rio "''nearest''" demo_loaded]
  by simp

subsection \<open>C8: the band count after \<^verbatim>\<open>load\<close>\<close>

text \<open>
  C8: whenever the read of \<^verbatim>\<open>load\<close> returns an array, the call succeeds, stores the
  array and sets the band count from its dimensionality alone: 1 for a 2-D array, the
  leading dimension for a 3-D array. The object that results does not depend on the
  buffer and band count the object held before.
\<close>

theorem load_recomputes_nbands:
  assumes "(case bands of None \<Rightarrow> ds_read lib (ds h) | Some b \<Rightarrow> ds_read_bands lib (ds h) b) = Inr a"
  shows "load lib bands h =
           (Ok, h\<lparr>data := Some a, nbands := Some (if length (shape a) = 3 then shape a ! 0 else 1)\<rparr>) \<and>
         (length (shape a) = 2 \<longrightarrow> nbands (snd (load lib bands h)) = Some 1) \<and>
         (length (shape a) = 3 \<longrightarrow> nbands (snd (load lib bands h)) = Some (shape a ! 0)) \<and>
         (\<forall>d k. snd (load lib bands (h\<lparr>data := d, nbands := k\<rparr>)) = snd (load lib bands h))"
  using assms by (cases bands) (simp_all add: load_def ndim_def)

theorem load_recomputes_nbands_witness:
  "ds_read demo_rio (ds demo_unloaded) = Inr demo_img \<and> length (shape demo_img) = 3 \<and>
   nbands (snd (load demo_rio None demo_unloaded)) = Some 1 \<and>
   snd (load demo_rio None (demo_unloaded\<lparr>data := None, nbands := Some 7\<rparr>))
     = snd (load demo_rio None demo_unloaded)"
proof -
  have r: "(case None of None \<Rightarrow> ds_read demo_rio (ds demo_unloaded)
            | Some b \<Rightarrow> ds_read_bands demo_rio (ds demo_unloaded) b) = Inr demo_img"
    by (simp add: demo_rio_def demo_unloaded_def demo_file_def)
  have s: "length (shape demo_img) = 3" "shape demo_img ! 0 = 1" by (simp_all add: demo_img_def)
  from load_recomputes_nbands [OF r] r s show ?thesis by simp
qed

subsection \<open>C9: the attributes mirrored at construction\<close>



subsection \<open>C10: the metadata a crop rebuilds the dataset from\<close>

text \<open>
  C10: after any successful crop, in either mode, the dataset of the object was opened
  from a memory file written under a metadata dict that agrees with the metadata of the
  dataset before the crop on every key other than height, width and transform, so on
  crs, nodata, driver and dtype. If the library keeps what was written
  (\<open>written_metadata_kept\<close>), the new dataset reports these four as before the crop.
\<close>

theorem crop_metadata_frame:
  assumes "crop lib cropGeom mode h = (Ok, h')"
  shows "\<exists>old md img mf.
           ds_meta lib (ds h) = Inr old \<and>
           memfile_write lib md img = Inr mf \<and> memfile_open lib mf = Inr (ds h') \<and>
           (\<forall>k. k \<notin> {''height'', ''width'', ''transform''} \<longrightarrow> md k = old k) \<and>
           md ''crs'' = old ''crs'' \<and> md ''nodata'' = old ''nodata'' \<and>
           md ''driver'' = old ''driver'' \<and> md ''dtype'' = old ''dtype'' \<and>
           (written_metadata_kept lib \<longrightarrow>
              (\<exists>new. ds_meta lib (ds h') = Inr new \<and>
                 new ''crs'' = old ''crs'' \<and> new ''nodata'' = old ''nodata'' \<and>
                 new ''driver'' = old ''driver'' \<and> new ''dtype'' = old ''dtype''))"
proof -
  from crop_ok_update [OF assms] obtain b old img md where
    m: "ds_meta lib (ds h) = Inr old" and
    c: "(if mode = ''match_pixel'' then crop_match_pixel lib h b old
         else crop_match_extent lib h b old) = Inr (img, md)" and
    u: "update lib img md h = (Ok, h')" by blast
  from c have fr: "\<forall>k. k \<notin> {''height'', ''width'', ''transform''} \<longrightarrow> md k = old k"
    by (auto split: if_splits dest: crop_match_pixel_meta crop_match_extent_meta)
  then have keys: "md ''crs'' = old ''crs''" "md ''nodata'' = old ''nodata''"
    "md ''driver'' = old ''driver''" "md ''dtype'' = old ''dtype''" by simp_all
  from update_ok [OF u] obtain mf where
    w: "memfile_write lib md img = Inr mf" and o: "memfile_open lib mf = Inr (ds h')" by blast
  have "written_metadata_kept lib \<longrightarrow>
          (\<exists>new. ds_meta lib (ds h') = Inr new \<and>
             new ''crs'' = old ''crs'' \<and> new ''nodata'' = old ''nodata'' \<and>
             new ''driver'' = old ''driver'' \<and> new ''dtype'' = old ''dtype'')"
  proof
    assume "written_metadata_kept lib"
    with w o obtain new where "ds_meta lib (ds h') = Inr new" "new ''crs'' = md ''crs''"
      "new ''nodata'' = md ''nodata''" "new ''driver'' = md ''driver''" "new ''dtype'' = md ''dtype''"
      unfolding written_metadata_kept_def by blast
    with keys show "\<exists>new. ds_meta lib (ds h') = Inr new \<and>
             new ''crs'' = old ''crs'' \<and> new ''nodata'' = old ''nodata'' \<and>
             new ''driver'' = old ''driver'' \<and> new ''dtype'' = old ''dtype''" by simp
  qed
  with m w o fr keys show ?thesis by blast
qed

theorem crop_metadata_frame_witness:
  "fst (crop demo_rio (GSeq [PInt 0, PInt 0, PInt 10, PInt 10]) ''match_extent'' demo_loaded) = Ok \<and>
   written_metadata_kept demo_rio \<and>
   (\<exists>old new.
      ds_meta demo_rio (ds demo_loaded) = Inr old \<and>
      ds_meta demo_rio
        (ds (snd (crop demo_rio (GSeq [PInt 0, PInt 0, PInt 10, PInt 10]) ''match_extent'' demo_loaded)))
        = Inr new \<and>
      new ''crs'' = old ''crs'' \<and> new ''nodata'' = old ''nodata'' \<and>
      new ''driver'' = old ''driver'' \<and> new ''dtype'' = old ''dtype'')"
proof -
  let ?c = "crop demo_rio (GSeq [PInt 0, PInt 0, PInt 10, PInt 10]) ''match_extent'' demo_loaded"
  have ok: "fst ?c = Ok" by (rule demo_crop_extent_ok)
  then have eq: "?c = (Ok, snd ?c)" by (metis prod.collapse)
  from crop_metadata_frame [OF eq] ok demo_written_metadata_kept show ?thesis by blast
qed

end
